theory Spec2Isabelle
  imports Complex_Main "HOL-Library.AList"
begin

section \<open>Values\<close>

text \<open>
  A Python float is written by the number it holds: \<open>Fin q\<close> is the float whose value
  is the rational \<open>q\<close>. The rounding of binary64 is not modelled, so statements about
  floats below are used only at values that binary64 holds exactly (12.5 is \<open>25 / 2\<close>).
\<close>

datatype pyfloat = Fin rat | PosInf | NegInf | NaN

text \<open>A decoded JSON value, as the transport hands it to the client.\<close>

datatype json =
    JNull
  | JBool bool
  | JInt int
  | JFloat pyfloat
  | JStr string
  | JList "json list"
  | JDict "(string \<times> json) list"

text \<open>
  \<open>enums.py\<close> is not among the sources. The members listed are the one that
  \<open>coordinates.py\<close> names (\<open>TaskType.COORDINATES\<close>) and the one of the other solver
  that \<open>client.py\<close> wires in; no statement below depends on how many members there are.
\<close>

datatype TaskType = COORDINATES | TURNSTILE

text \<open>
  A value the client puts into a request: a plain value, a task type (an enum member,
  which the JSON encoder of the transport serialises), or a dict of such values. A dict
  keeps its insertion order and has one entry per key, so it is an association list that
  is only ever extended through \<open>AList.update\<close>.
\<close>

datatype pyval =
    Json json
  | Enum TaskType
  | Dict "(string \<times> pyval) list"

datatype error =
    TwoCaptchaError int "json option" "json option"
  | ValidationError
  | KeyError string
  | TypeError
  | ValueError
  | OverflowError
  | NetworkError string

section \<open>Task model\<close>

text \<open>
  Modelled from the spec: \<open>models/task.py\<close> (the class \<open>Task\<close> with its fields and the
  predicates \<open>is_ready\<close> and \<open>is_processing\<close>) is not among the sources. The fields are
  those of the spec's data model; a field the spec allows to be absent is an option. The
  solution type is a parameter: the generic Task keeps the decoded JSON, a solver's
  result model gives it a shape.
\<close>

record 'sol task_model =
  task_id :: "int option"
  error_id :: int
  error_code :: "string option"
  error_description :: "string option"
  status :: "string option"
  solution :: "'sol option"

type_synonym Task = "json task_model"

text \<open>Modelled from the spec: true iff \<open>error_id == 0\<close> and \<open>status == "ready"\<close>.\<close>

definition is_ready :: "'sol task_model \<Rightarrow> bool" where
  "is_ready t = (error_id t = 0 \<and> status t = Some ''ready'')"

text \<open>Modelled from the spec: true iff \<open>error_id == 0\<close> and \<open>status == "processing"\<close>.\<close>

definition is_processing :: "'sol task_model \<Rightarrow> bool" where
  "is_processing t = (error_id t = 0 \<and> status t = Some ''processing'')"

text \<open>Modelled from the spec: true iff \<open>error_id != 0\<close>.\<close>

definition is_error :: "'sol task_model \<Rightarrow> bool" where
  "is_error t = (error_id t \<noteq> 0)"

section \<open>Transport\<close>

text \<open>
  What the session has done so far is a list of events, oldest first: the requests the
  client posted (path and JSON body, \<open>None\<close> for a request posted without a body) and
  the waits between them.
\<close>

datatype event = Post string "pyval option" | Sleep nat

text \<open>
  \<open>http_session.py\<close> is not among the sources, so the session is a parameter of every
  operation: a function from the history up to and including the request just posted to
  what \<open>post\<close> returns (\<open>Inr\<close>, the decoded response) or raises (\<open>Inl\<close>). The answer
  may depend on everything that happened before, as a server's does.
\<close>

type_synonym transport = "event list \<Rightarrow> error + json"

text \<open>\<open>await self.session.post(path, json=body)\<close>\<close>

definition session_post ::
  "transport \<Rightarrow> string \<Rightarrow> pyval option \<Rightarrow> event list \<Rightarrow> (error + json) \<times> event list" where
  "session_post session path body tr = (let tr1 = tr @ [Post path body] in (session tr1, tr1))"

text \<open>\<open>await asyncio.sleep(n)\<close>\<close>

definition asyncio_sleep :: "nat \<Rightarrow> event list \<Rightarrow> event list" where
  "asyncio_sleep n tr = tr @ [Sleep n]"

section \<open>Running task and client\<close>

text \<open>
  Parsing a response into a Task (\<open>Task.model_validate\<close>) belongs to the missing model
  class, and the spec gives it as a contract only; it is the parameter \<open>model_validate\<close>
  of the operations below, which raises (\<open>Inl\<close>) or returns a Task.
\<close>

type_synonym validator = "json \<Rightarrow> error + Task"

text \<open>The client of a running task is the pair of parameters \<open>session\<close>, \<open>model_validate\<close>.\<close>

record RunningTask =
  task :: Task

definition RunningTask_init :: "validator \<Rightarrow> json \<Rightarrow> error + RunningTask" where
  "RunningTask_init model_validate task_data =
     (case model_validate task_data of
        Inl e \<Rightarrow> Inl e
      | Inr t \<Rightarrow> Inr \<lparr>task = t\<rparr>)"

text \<open>
  \<open>Async2Captcha.create_task\<close>. The payload is the caller's dict, which line 59 updates
  in place: the function returns the dict as the call leaves it, next to its result.
\<close>

definition create_task ::
  "transport \<Rightarrow> validator \<Rightarrow> TaskType \<Rightarrow> (string \<times> pyval) list \<Rightarrow> event list
     \<Rightarrow> (error + RunningTask) \<times> (string \<times> pyval) list \<times> event list" where
  "create_task session model_validate type payload tr =
     (let payload1 = AList.update ''type'' (Enum type) payload
      in case session_post session ''/createTask'' (Some (Dict [(''task'', Dict payload1)])) tr of
           (Inl e, tr1) \<Rightarrow> (Inl e, payload1, tr1)
         | (Inr data, tr1) \<Rightarrow> (RunningTask_init model_validate data, payload1, tr1))"

text \<open>
  \<open>Async2Captcha.get_task_result\<close>. Python does not check the annotation \<open>task_id: int\<close>:
  whatever value is passed goes into the body.
\<close>

definition get_task_result ::
  "transport \<Rightarrow> validator \<Rightarrow> pyval \<Rightarrow> event list \<Rightarrow> (error + Task) \<times> event list" where
  "get_task_result session model_validate tid tr =
     (case session_post session ''/getTaskResult'' (Some (Dict [(''taskId'', tid)])) tr of
        (Inl e, tr1) \<Rightarrow> (Inl e, tr1)
      | (Inr data, tr1) \<Rightarrow> (model_validate data, tr1))"

text \<open>The value of \<open>self.task.task_id\<close> as an argument: \<open>None\<close> when the Task has no id.\<close>

definition task_id_arg :: "int option \<Rightarrow> pyval" where
  "task_id_arg i = (case i of None \<Rightarrow> Json JNull | Some n \<Rightarrow> Json (JInt n))"

text \<open>
  \<open>RunningTask.wait_until_completed\<close>: \<open>while True\<close> with a return inside. The loop may
  run forever, so the result is an option and \<open>None\<close> stands for not returning. A Task
  that is not ready leads to the sleep whether or not it is processing, as in the source,
  where the \<open>elif\<close> branch is \<open>pass\<close>.
\<close>

partial_function (option) wait_until_completed ::
  "transport \<Rightarrow> validator \<Rightarrow> RunningTask \<Rightarrow> event list \<Rightarrow> ((error + Task) \<times> event list) option"
where
  "wait_until_completed session model_validate self tr =
     (case get_task_result session model_validate (task_id_arg (task_id (task self))) tr of
        (Inl e, tr1) \<Rightarrow> Some (Inl e, tr1)
      | (Inr t, tr1) \<Rightarrow>
          if is_ready t then Some (Inr t, tr1)
          else if is_processing t
            then wait_until_completed session model_validate self (asyncio_sleep 10 tr1)
            else wait_until_completed session model_validate self (asyncio_sleep 10 tr1))"

section \<open>Coordinates solver\<close>

text \<open>Lines 83 to 93 of \<open>CoordinatesSolver.create_task\<close>: the payload it assembles.\<close>

definition coordinates_payload ::
  "string \<Rightarrow> string option \<Rightarrow> string option \<Rightarrow> int option \<Rightarrow> int option \<Rightarrow> (string \<times> pyval) list" where
  "coordinates_payload body comment img_instructions min_clicks max_clicks =
     (let payload = [(''body'', Json (JStr body))];
          payload = (case comment of
                       None \<Rightarrow> payload
                     | Some c \<Rightarrow> if c \<noteq> [] then AList.update ''comment'' (Json (JStr c)) payload
                                else payload);
          payload = (case img_instructions of
                       None \<Rightarrow> payload
                     | Some i \<Rightarrow> if i \<noteq> []
                                then AList.update ''imgInstructions'' (Json (JStr i)) payload
                                else payload);
          payload = (case min_clicks of
                       None \<Rightarrow> payload
                     | Some n \<Rightarrow> AList.update ''minClicks'' (Json (JInt n)) payload);
          payload = (case max_clicks of
                       None \<Rightarrow> payload
                     | Some n \<Rightarrow> AList.update ''maxClicks'' (Json (JInt n)) payload)
      in payload)"

text \<open>
  The typed result model. \<open>CoordinatesSolution\<close> has one required field, a list of dicts
  from strings to integers; \<open>CoordinatesTask\<close> is a Task whose solution, when there is
  one, is a \<open>CoordinatesSolution\<close>.
\<close>

record CoordinatesSolution =
  coordinates :: "(string \<times> int) list list"

type_synonym CoordinatesTask = "CoordinatesSolution task_model"

text \<open>
  Validation is the library's (pydantic). A field of a given type accepts a value of
  that type; for an integer the library's lax mode accepts some other inputs too (which
  ones is the library's business): the parameter \<open>lax_int\<close> says which, and every
  statement below holds for any choice of it.
\<close>

fun traverse :: "('a \<Rightarrow> error + 'b) \<Rightarrow> 'a list \<Rightarrow> error + 'b list" where
  "traverse f [] = Inr []"
| "traverse f (x # xs) =
     (case f x of
        Inl e \<Rightarrow> Inl e
      | Inr y \<Rightarrow> (case traverse f xs of Inl e \<Rightarrow> Inl e | Inr ys \<Rightarrow> Inr (y # ys)))"

definition validate_int :: "(json \<Rightarrow> int option) \<Rightarrow> json \<Rightarrow> error + int" where
  "validate_int lax_int v =
     (case v of
        JInt n \<Rightarrow> Inr n
      | _ \<Rightarrow> (case lax_int v of Some n \<Rightarrow> Inr n | None \<Rightarrow> Inl ValidationError))"

definition validate_str :: "json \<Rightarrow> error + string" where
  "validate_str v = (case v of JStr s \<Rightarrow> Inr s | _ \<Rightarrow> Inl ValidationError)"

text \<open>A field \<open>Optional[T] = None\<close>: a missing key and \<open>None\<close> both give \<open>None\<close>.\<close>

definition validate_optional :: "(json \<Rightarrow> error + 'a) \<Rightarrow> json option \<Rightarrow> error + 'a option" where
  "validate_optional f v =
     (case v of
        None \<Rightarrow> Inr None
      | Some JNull \<Rightarrow> Inr None
      | Some x \<Rightarrow> (case f x of Inl e \<Rightarrow> Inl e | Inr y \<Rightarrow> Inr (Some y)))"

text \<open>A required field: a missing key is a validation error.\<close>

definition validate_required :: "(json \<Rightarrow> error + 'a) \<Rightarrow> json option \<Rightarrow> error + 'a" where
  "validate_required f v = (case v of None \<Rightarrow> Inl ValidationError | Some x \<Rightarrow> f x)"

text \<open>\<open>Dict[str, int]\<close>\<close>

definition validate_point :: "(json \<Rightarrow> int option) \<Rightarrow> json \<Rightarrow> error + (string \<times> int) list" where
  "validate_point lax_int v =
     (case v of
        JDict kvs \<Rightarrow>
          traverse (\<lambda>(k, x). case validate_int lax_int x of Inl e \<Rightarrow> Inl e | Inr n \<Rightarrow> Inr (k, n)) kvs
      | _ \<Rightarrow> Inl ValidationError)"

text \<open>
  \<open>CoordinatesSolution\<close> from a dict: the field \<open>coordinates\<close> is required
  (\<open>Field(...)\<close>) and is a \<open>List[Dict[str, int]]\<close>; keys the model does not declare are
  ignored.
\<close>

definition CoordinatesSolution_validate ::
  "(json \<Rightarrow> int option) \<Rightarrow> json \<Rightarrow> error + CoordinatesSolution" where
  "CoordinatesSolution_validate lax_int v =
     (case v of
        JDict kvs \<Rightarrow>
          (case validate_required
                  (\<lambda>c. case c of JList ps \<Rightarrow> traverse (validate_point lax_int) ps
                                | _ \<Rightarrow> Inl ValidationError)
                  (map_of kvs ''coordinates'') of
             Inl e \<Rightarrow> Inl e
           | Inr ps \<Rightarrow> Inr \<lparr>coordinates = ps\<rparr>)
      | _ \<Rightarrow> Inl ValidationError)"

text \<open>
  Modelled from the spec: \<open>Task.model_dump()\<close> of the missing class \<open>Task\<close>, a dict from
  the in-memory field names to the field values, an absent value as \<open>None\<close>.
\<close>

definition opt_json :: "('a \<Rightarrow> json) \<Rightarrow> 'a option \<Rightarrow> json" where
  "opt_json f v = (case v of None \<Rightarrow> JNull | Some x \<Rightarrow> f x)"

definition model_dump :: "Task \<Rightarrow> (string \<times> json) list" where
  "model_dump t =
     [(''error_id'', JInt (error_id t)),
      (''error_code'', opt_json JStr (error_code t)),
      (''error_description'', opt_json JStr (error_description t)),
      (''task_id'', opt_json JInt (task_id t)),
      (''status'', opt_json JStr (status t)),
      (''solution'', opt_json id (solution t))]"

text \<open>
  \<open>CoordinatesTask(**kwargs)\<close>: the fields inherited from Task (modelled from the spec:
  their names and types are those of the missing class, and the model is populated by
  field name) and the field \<open>solution\<close> that \<open>coordinates.py\<close> redeclares. The first
  field that fails to validate raises; a keyword that is no field is ignored.
\<close>

definition CoordinatesTask_init ::
  "(json \<Rightarrow> int option) \<Rightarrow> (string \<times> json) list \<Rightarrow> error + CoordinatesTask" where
  "CoordinatesTask_init lax_int kwargs =
     (case validate_required (validate_int lax_int) (map_of kwargs ''error_id'') of
        Inl e \<Rightarrow> Inl e
      | Inr eid \<Rightarrow>
     (case validate_optional validate_str (map_of kwargs ''error_code'') of
        Inl e \<Rightarrow> Inl e
      | Inr ecode \<Rightarrow>
     (case validate_optional validate_str (map_of kwargs ''error_description'') of
        Inl e \<Rightarrow> Inl e
      | Inr edesc \<Rightarrow>
     (case validate_optional (validate_int lax_int) (map_of kwargs ''task_id'') of
        Inl e \<Rightarrow> Inl e
      | Inr tid \<Rightarrow>
     (case validate_optional validate_str (map_of kwargs ''status'') of
        Inl e \<Rightarrow> Inl e
      | Inr st \<Rightarrow>
     (case validate_optional (CoordinatesSolution_validate lax_int) (map_of kwargs ''solution'') of
        Inl e \<Rightarrow> Inl e
      | Inr sol \<Rightarrow>
          Inr \<lparr>task_id = tid, error_id = eid, error_code = ecode, error_description = edesc,
               status = st, solution = sol\<rparr>))))))"

text \<open>
  \<open>CoordinatesSolver.create_task\<close>: assemble the payload, create the task, wait for it,
  and turn the completed Task into a \<open>CoordinatesTask\<close>. \<open>None\<close> when the wait never
  returns.
\<close>

definition CoordinatesSolver_create_task ::
  "transport \<Rightarrow> validator \<Rightarrow> (json \<Rightarrow> int option) \<Rightarrow> string \<Rightarrow> string option \<Rightarrow> string option
     \<Rightarrow> int option \<Rightarrow> int option \<Rightarrow> event list \<Rightarrow> ((error + CoordinatesTask) \<times> event list) option" where
  "CoordinatesSolver_create_task session model_validate lax_int body comment img_instructions
       min_clicks max_clicks tr =
     (let payload = coordinates_payload body comment img_instructions min_clicks max_clicks
      in case create_task session model_validate COORDINATES payload tr of
           (Inl e, payload1, tr1) \<Rightarrow> Some (Inl e, tr1)
         | (Inr running, payload1, tr1) \<Rightarrow>
             (case wait_until_completed session model_validate running tr1 of
                None \<Rightarrow> None
              | Some (Inl e, tr2) \<Rightarrow> Some (Inl e, tr2)
              | Some (Inr completed_task, tr2) \<Rightarrow>
                  Some (CoordinatesTask_init lax_int (model_dump completed_task), tr2)))"

section \<open>Balance\<close>

















section \<open>The collaborators, from their contracts\<close>

text \<open>
  Modelled from the spec: \<open>HTTPSession.post\<close> of the missing \<open>http_session.py\<close>. It
  merges the default JSON object into the body of the request, sends it, and returns the
  decoded response, or raises an application error that carries \<open>errorId\<close>,
  \<open>errorCode\<close> and \<open>errorDescription\<close> when the response's \<open>errorId\<close> is nonzero. The
  server is a function from the requests as they went over the wire to the response to
  the last of them.
\<close>

definition merge_default :: "(string \<times> pyval) list \<Rightarrow> pyval option \<Rightarrow> pyval" where
  "merge_default default_json body =
     (case body of
        None \<Rightarrow> Dict default_json
      | Some (Dict kvs) \<Rightarrow> Dict (fold (\<lambda>(k, v). AList.update k v) kvs default_json)
      | Some v \<Rightarrow> v)"

definition wire_event :: "(string \<times> pyval) list \<Rightarrow> event \<Rightarrow> event" where
  "wire_event default_json ev =
     (case ev of
        Post path body \<Rightarrow> Post path (Some (merge_default default_json body))
      | Sleep n \<Rightarrow> Sleep n)"

definition HTTPSession_post :: "(string \<times> pyval) list \<Rightarrow> (event list \<Rightarrow> json) \<Rightarrow> transport" where
  "HTTPSession_post default_json server tr =
     (let response = server (map (wire_event default_json) tr)
      in case response of
           JDict kvs \<Rightarrow>
             (case map_of kvs ''errorId'' of
                Some (JInt n) \<Rightarrow>
                  if n \<noteq> 0
                  then Inl (TwoCaptchaError n (map_of kvs ''errorCode'')
                              (map_of kvs ''errorDescription''))
                  else Inr response
              | _ \<Rightarrow> Inr response)
         | _ \<Rightarrow> Inr response)"

text \<open>The session that \<open>Async2Captcha.__init__\<close> builds: the default is the API key.\<close>

definition Async2Captcha_session :: "string \<Rightarrow> (event list \<Rightarrow> json) \<Rightarrow> transport" where
  "Async2Captcha_session api_key server =
     HTTPSession_post [(''clientKey'', Json (JStr api_key))] server"

text \<open>
  Modelled from the spec: \<open>Task.model_validate\<close> of the missing class \<open>Task\<close>, on the
  wire names of the fields. \<open>errorId\<close> is required; the other fields may be absent; the
  solution is kept as it came; unknown keys are ignored.
\<close>

definition Task_model_validate :: "(json \<Rightarrow> int option) \<Rightarrow> validator" where
  "Task_model_validate lax_int data =
     (case data of
        JDict kvs \<Rightarrow>
          (case validate_required (validate_int lax_int) (map_of kvs ''errorId'') of
             Inl e \<Rightarrow> Inl e
           | Inr eid \<Rightarrow>
          (case validate_optional validate_str (map_of kvs ''errorCode'') of
             Inl e \<Rightarrow> Inl e
           | Inr ecode \<Rightarrow>
          (case validate_optional validate_str (map_of kvs ''errorDescription'') of
             Inl e \<Rightarrow> Inl e
           | Inr edesc \<Rightarrow>
          (case validate_optional (validate_int lax_int) (map_of kvs ''taskId'') of
             Inl e \<Rightarrow> Inl e
           | Inr tid \<Rightarrow>
          (case validate_optional validate_str (map_of kvs ''status'') of
             Inl e \<Rightarrow> Inl e
           | Inr st \<Rightarrow>
          (case validate_optional Inr (map_of kvs ''solution'') of
             Inl e \<Rightarrow> Inl e
           | Inr sol \<Rightarrow>
               Inr \<lparr>task_id = tid, error_id = eid, error_code = ecode,
                    error_description = edesc, status = st, solution = sol\<rparr>))))))
      | _ \<Rightarrow> Inl ValidationError)"

text \<open>The validation that accepts for an integer nothing but an integer.\<close>

definition no_coercion :: "json \<Rightarrow> int option" where
  "no_coercion v = None"

section \<open>Observing a run\<close>

text \<open>The request that one poll posts, and the requests and the waits in a list of events.\<close>

definition poll_request :: "pyval \<Rightarrow> event" where
  "poll_request tid = Post ''/getTaskResult'' (Some (Dict [(''taskId'', tid)]))"

definition calls :: "event list \<Rightarrow> nat" where
  "calls evs = length (filter (\<lambda>e. case e of Post path body \<Rightarrow> True | Sleep n \<Rightarrow> False) evs)"

definition sleeps :: "event list \<Rightarrow> nat list" where
  "sleeps evs = concat (map (\<lambda>e. case e of Post path body \<Rightarrow> [] | Sleep n \<Rightarrow> [n]) evs)"

text \<open>
  The history at which call number \<open>k + 1\<close> of a poll loop is made, when each of the
  \<open>k\<close> calls before it was followed by a wait of 10; and what \<open>get_task_result\<close> gives
  on that call.
\<close>

definition poll_history :: "pyval \<Rightarrow> event list \<Rightarrow> nat \<Rightarrow> event list" where
  "poll_history tid tr k = tr @ concat (replicate k [poll_request tid, Sleep 10])"

definition poll_result :: "transport \<Rightarrow> validator \<Rightarrow> pyval \<Rightarrow> event list \<Rightarrow> nat \<Rightarrow> error + Task" where
  "poll_result session model_validate tid tr k =
     fst (get_task_result session model_validate tid (poll_history tid tr k))"

text \<open>A terminal value of the poll: a raised failure or a ready Task.\<close>

definition terminal :: "error + Task \<Rightarrow> bool" where
  "terminal r = (case r of Inl e \<Rightarrow> True | Inr t \<Rightarrow> is_ready t)"

section \<open>Servers for the examples\<close>

text \<open>A server that answers every request with the application error 12.\<close>

definition server_error12 :: "event list \<Rightarrow> json" where
  "server_error12 tr =
     JDict [(''errorId'', JInt 12), (''errorCode'', JStr ''ERROR_CAPTCHA_UNSOLVABLE''),
            (''errorDescription'', JStr ''Workers could not solve the captcha'')]"

text \<open>
  A server that creates task 42 and answers the first \<open>N\<close> polls with "processing" and
  every later poll with "ready" and a solution.
\<close>

definition server_processing_then_ready :: "nat \<Rightarrow> event list \<Rightarrow> json" where
  "server_processing_then_ready N tr =
     (case rev tr of
        Post path body # earlier \<Rightarrow>
          if path = ''/createTask''
          then JDict [(''errorId'', JInt 0), (''taskId'', JInt 42), (''status'', JStr ''processing'')]
          else if length (filter (\<lambda>e. case e of Post p b \<Rightarrow> p = ''/getTaskResult'' | Sleep n \<Rightarrow> False) tr) \<le> N
          then JDict [(''errorId'', JInt 0), (''status'', JStr ''processing'')]
          else JDict [(''errorId'', JInt 0), (''status'', JStr ''ready''),
                      (''solution'', JDict [(''coordinates'',
                          JList [JDict [(''x'', JInt 10), (''y'', JInt 20)]])])]
      | _ \<Rightarrow> JNull)"



section \<open>Values for the examples\<close>

definition example_session :: "nat \<Rightarrow> transport" where
  "example_session N = Async2Captcha_session ''KEY'' (server_processing_then_ready N)"

definition example_running :: RunningTask where
  "example_running =
     \<lparr>task = \<lparr>task_id = Some 42, error_id = 0, error_code = None, error_description = None,
               status = Some ''processing'', solution = None\<rparr>\<rparr>"

definition example_ready :: Task where
  "example_ready =
     \<lparr>task_id = None, error_id = 0, error_code = None, error_description = None,
      status = Some ''ready'',
      solution = Some (JDict [(''coordinates'', JList [JDict [(''x'', JInt 10), (''y'', JInt 20)]])])\<rparr>"

definition example_payload :: "(string \<times> pyval) list" where
  "example_payload = coordinates_payload ''aGVsbG8='' None None (Some 1) None"

definition point_json :: "(string \<times> int) list \<Rightarrow> json" where
  "point_json pt = JDict (map (\<lambda>(k, n). (k, JInt n)) pt)"

definition example_token_task :: Task where
  "example_token_task =
     \<lparr>task_id = Some 42, error_id = 0, error_code = None, error_description = None,
      status = Some ''ready'', solution = Some (JDict [(''token'', JStr ''abc'')])\<rparr>"

definition example_unsolved :: Task where
  "example_unsolved =
     \<lparr>task_id = Some 42, error_id = 0, error_code = None, error_description = None,
      status = Some ''ready'', solution = None\<rparr>"

section \<open>Properties\<close>

subsection \<open>Task predicates\<close>

lemma processing_not_ready: "is_processing t \<Longrightarrow> \<not> is_ready t"
  by (simp add: is_processing_def is_ready_def)

text \<open>
  C4. \<open>is_ready\<close> holds exactly when \<open>error_id\<close> is 0 and the status is "ready",
  \<open>is_processing\<close> exactly when \<open>error_id\<close> is 0 and the status is "processing"; a Task
  with a nonzero \<open>error_id\<close> satisfies neither, whatever its status; and no Task is in two
  of the states errored, processing, ready.
\<close>

theorem task_predicates:
  "(is_ready t \<longleftrightarrow> error_id t = 0 \<and> status t = Some ''ready'')
   \<and> (is_processing t \<longleftrightarrow> error_id t = 0 \<and> status t = Some ''processing'')
   \<and> (error_id t \<noteq> 0 \<longrightarrow> \<not> is_ready t \<and> \<not> is_processing t)
   \<and> \<not> (is_error t \<and> is_processing t)
   \<and> \<not> (is_error t \<and> is_ready t)
   \<and> \<not> (is_processing t \<and> is_ready t)"
  by (auto simp add: is_ready_def is_processing_def is_error_def)

theorem task_predicates_witness:
  "error_id \<lparr>task_id = Some 42, error_id = 12, error_code = Some ''ERROR_NO_SLOT_AVAILABLE'',
      error_description = None, status = Some ''ready'', solution = (None :: json option)\<rparr> \<noteq> 0
   \<and> \<not> is_ready \<lparr>task_id = Some 42, error_id = 12, error_code = Some ''ERROR_NO_SLOT_AVAILABLE'',
      error_description = None, status = Some ''ready'', solution = (None :: json option)\<rparr>
   \<and> \<not> is_processing \<lparr>task_id = Some 42, error_id = 12, error_code = Some ''ERROR_NO_SLOT_AVAILABLE'',
      error_description = None, status = Some ''ready'', solution = (None :: json option)\<rparr>"
  using task_predicates [of "\<lparr>task_id = Some 42, error_id = 12,
      error_code = Some ''ERROR_NO_SLOT_AVAILABLE'', error_description = None,
      status = Some ''ready'', solution = (None :: json option)\<rparr>"]
  by simp

subsection \<open>The poll loop\<close>

lemma get_task_result_trace:
  "snd (get_task_result session mv tid tr) = tr @ [poll_request tid]"
  by (simp add: get_task_result_def session_post_def poll_request_def Let_def split: sum.split)

lemma concat_replicate_Suc: "concat (replicate (Suc k) xs) = concat (replicate k xs) @ xs"
  by (induction k) simp_all

lemma poll_history_Suc:
  "poll_history tid tr (Suc k) = asyncio_sleep 10 (snd (get_task_result session mv tid (poll_history tid tr k)))"
  by (simp add: get_task_result_trace poll_history_def asyncio_sleep_def concat_replicate_Suc del: replicate_Suc concat.simps)

lemma wait_until_completed_now:
  assumes "terminal (fst (get_task_result session mv (task_id_arg (task_id (task self))) tr))"
  shows "wait_until_completed session mv self tr =
           Some (get_task_result session mv (task_id_arg (task_id (task self))) tr)"
  using assms
  by (subst wait_until_completed.simps) (auto simp add: terminal_def split: prod.split sum.split)

lemma wait_until_completed_later:
  assumes "\<not> terminal (fst (get_task_result session mv (task_id_arg (task_id (task self))) tr))"
  shows "wait_until_completed session mv self tr =
           wait_until_completed session mv self
             (asyncio_sleep 10 (snd (get_task_result session mv (task_id_arg (task_id (task self))) tr)))"
  using assms
  by (subst wait_until_completed.simps) (auto simp add: terminal_def split: prod.split sum.split)

lemma wait_until_completed_skip:
  assumes "\<And>k. k < n \<Longrightarrow> \<not> terminal (poll_result session mv (task_id_arg (task_id (task self))) tr k)"
  shows "wait_until_completed session mv self tr =
           wait_until_completed session mv self (poll_history (task_id_arg (task_id (task self))) tr n)"
  using assms
proof (induction n)
  case 0
  show ?case by (simp add: poll_history_def)
next
  case (Suc n)
  have "wait_until_completed session mv self tr =
          wait_until_completed session mv self (poll_history (task_id_arg (task_id (task self))) tr n)"
    using Suc by simp
  also have "\<dots> = wait_until_completed session mv self
                     (poll_history (task_id_arg (task_id (task self))) tr (Suc n))"
    using Suc.prems [of n] wait_until_completed_later [of session mv self "poll_history (task_id_arg (task_id (task self))) tr n"]
    by (simp add: poll_result_def poll_history_Suc [of _ _ _ session mv])
  finally show ?case .
qed

lemma wait_until_completed_first_terminal:
  assumes "\<And>k. k < n \<Longrightarrow> \<not> terminal (poll_result session mv (task_id_arg (task_id (task self))) tr k)"
    and "terminal (poll_result session mv (task_id_arg (task_id (task self))) tr n)"
  shows "wait_until_completed session mv self tr =
           Some (poll_result session mv (task_id_arg (task_id (task self))) tr n,
                 poll_history (task_id_arg (task_id (task self))) tr n
                   @ [poll_request (task_id_arg (task_id (task self)))])"
proof -
  let ?tid = "task_id_arg (task_id (task self))"
  have "wait_until_completed session mv self tr =
          wait_until_completed session mv self (poll_history ?tid tr n)"
    using assms(1) by (rule wait_until_completed_skip)
  also have "\<dots> = Some (get_task_result session mv ?tid (poll_history ?tid tr n))"
    using assms(2) by (intro wait_until_completed_now) (simp add: poll_result_def)
  also have "get_task_result session mv ?tid (poll_history ?tid tr n) =
               (poll_result session mv ?tid tr n, poll_history ?tid tr n @ [poll_request ?tid])"
    by (simp add: poll_result_def prod_eq_iff get_task_result_trace)
  finally show ?thesis .
qed

lemma wait_until_completed_ready:
  assumes "wait_until_completed session mv self tr = Some y"
  shows "terminal (fst y)"
proof (rule wait_until_completed.raw_induct
        [where P = "\<lambda>session mv self tr y. terminal (fst y)", OF _ assms])
  fix wait :: "transport \<Rightarrow> validator \<Rightarrow> RunningTask \<Rightarrow> event list \<Rightarrow> ((error + Task) \<times> event list) option"
    and session mv self tr y
  assume IH: "\<And>session mv self tr y. wait session mv self tr = Some y \<Longrightarrow> terminal (fst y)"
  assume step: "(case get_task_result session mv (task_id_arg (task_id (task self))) tr of
        (Inl e, tr1) \<Rightarrow> Some (Inl e, tr1)
      | (Inr t, tr1) \<Rightarrow>
          if is_ready t then Some (Inr t, tr1)
          else if is_processing t
            then wait session mv self (asyncio_sleep 10 tr1)
            else wait session mv self (asyncio_sleep 10 tr1)) = Some y"
  obtain r tr1 where g: "get_task_result session mv (task_id_arg (task_id (task self))) tr = (r, tr1)"
    by (cases "get_task_result session mv (task_id_arg (task_id (task self))) tr")
  show "terminal (fst y)"
  proof (cases r)
    case (Inl e)
    with step g show ?thesis by (auto simp add: terminal_def)
  next
    case (Inr t)
    show ?thesis
    proof (cases "is_ready t")
      case True
      with step g Inr show ?thesis by (auto simp add: terminal_def)
    next
      case False
      with step g Inr have "wait session mv self (asyncio_sleep 10 tr1) = Some y"
        by (simp split: if_splits)
      then show ?thesis by (rule IH)
    qed
  qed
qed

lemma calls_polls: "calls (concat (replicate N [poll_request tid, Sleep 10]) @ [poll_request tid]) = N + 1"
  by (induction N) (simp_all add: calls_def poll_request_def)

lemma sleeps_polls: "sleeps (concat (replicate N [poll_request tid, Sleep 10]) @ [poll_request tid]) = replicate N 10"
  by (induction N) (simp_all add: sleeps_def poll_request_def)

text \<open>
  C1. When some poll of the loop yields a terminal value (call number \<open>n + 1\<close> raises or
  returns a ready Task), \<open>wait_until_completed\<close> returns, and what it produces is the
  one value of the first such poll: the failure that \<open>get_task_result\<close> raised, or the
  ready Task. Whatever the session does, a value the loop produces is terminal, and a Task
  it returns is ready and not processing.
\<close>

theorem wait_until_completed_terminal_value:
  assumes "tid = task_id_arg (task_id (task self))"
  shows "(terminal (poll_result session mv tid tr n) \<longrightarrow>
           (\<exists>m\<le>n. wait_until_completed session mv self tr =
                     Some (poll_result session mv tid tr m, poll_history tid tr m @ [poll_request tid])
                 \<and> terminal (poll_result session mv tid tr m)))
       \<and> (\<forall>r tr'. wait_until_completed session mv self tr = Some (r, tr') \<longrightarrow> terminal r)
       \<and> (\<forall>t tr'. wait_until_completed session mv self tr = Some (Inr t, tr') \<longrightarrow>
             is_ready t \<and> \<not> is_processing t)"
proof -
  have first: "\<exists>m\<le>n. wait_until_completed session mv self tr =
                     Some (poll_result session mv tid tr m, poll_history tid tr m @ [poll_request tid])
                 \<and> terminal (poll_result session mv tid tr m)"
    if n: "terminal (poll_result session mv tid tr n)"
  proof -
    define m where "m = (LEAST k. terminal (poll_result session mv tid tr k))"
    have m: "terminal (poll_result session mv tid tr m)"
      unfolding m_def using n by (rule LeastI)
    have le: "m \<le> n"
      unfolding m_def using n by (rule Least_le)
    have before: "\<not> terminal (poll_result session mv tid tr k)" if "k < m" for k
      using that unfolding m_def by (rule not_less_Least)
    have "wait_until_completed session mv self tr =
            Some (poll_result session mv tid tr m, poll_history tid tr m @ [poll_request tid])"
      unfolding assms
      by (rule wait_until_completed_first_terminal) (use before m assms in auto)
    with m le show ?thesis
      by blast
  qed
  have second: "terminal r" if "wait_until_completed session mv self tr = Some (r, tr')" for r tr'
    using wait_until_completed_ready [OF that] by simp
  have third: "is_ready t \<and> \<not> is_processing t"
    if "wait_until_completed session mv self tr = Some (Inr t, tr')" for t tr'
    using second [OF that] by (auto simp add: terminal_def is_ready_def is_processing_def)
  from first second third show ?thesis
    by blast
qed

text \<open>
  C2. When \<open>get_task_result\<close> returns a processing Task on each of the first \<open>N\<close>
  calls and a ready Task on call \<open>N + 1\<close>, \<open>wait_until_completed\<close> returns that
  ready Task; the events of the run are \<open>N\<close> times a call followed by a sleep of 10, then
  the last call: \<open>N + 1\<close> calls, and between any two consecutive calls one sleep of 10.
\<close>

theorem wait_until_completed_polls:
  assumes "tid = task_id_arg (task_id (task self))"
    and "\<forall>k<N. \<exists>p. poll_result session mv tid tr k = Inr p \<and> is_processing p"
    and "poll_result session mv tid tr N = Inr t"
    and "is_ready t"
  shows "wait_until_completed session mv self tr =
           Some (Inr t, tr @ concat (replicate N [poll_request tid, Sleep 10]) @ [poll_request tid])
       \<and> calls (concat (replicate N [poll_request tid, Sleep 10]) @ [poll_request tid]) = N + 1
       \<and> sleeps (concat (replicate N [poll_request tid, Sleep 10]) @ [poll_request tid]) = replicate N 10"
proof -
  have before: "\<not> terminal (poll_result session mv tid tr k)" if "k < N" for k
    using assms(2) that by (auto simp add: terminal_def is_ready_def is_processing_def)
  have now: "terminal (poll_result session mv tid tr N)"
    using assms(3,4) by (simp add: terminal_def)
  have "wait_until_completed session mv self tr =
          Some (poll_result session mv tid tr N, poll_history tid tr N @ [poll_request tid])"
    unfolding assms(1)
    by (rule wait_until_completed_first_terminal) (use before now assms(1) in auto)
  then show ?thesis
    by (simp add: assms(3) poll_history_def calls_polls sleeps_polls)
qed

lemma example_poll_result:
  "poll_result (example_session 2) (Task_model_validate no_coercion) (Json (JInt 42)) [] 0 =
     Inr \<lparr>task_id = None, error_id = 0, error_code = None, error_description = None,
               status = Some ''processing'', solution = None\<rparr>"
  "poll_result (example_session 2) (Task_model_validate no_coercion) (Json (JInt 42)) [] 1 =
     Inr \<lparr>task_id = None, error_id = 0, error_code = None, error_description = None,
               status = Some ''processing'', solution = None\<rparr>"
  "poll_result (example_session 2) (Task_model_validate no_coercion) (Json (JInt 42)) [] 2 =
     Inr example_ready"
  by (simp_all add: poll_result_def poll_history_def get_task_result_def session_post_def
       example_session_def Async2Captcha_session_def HTTPSession_post_def
       server_processing_then_ready_def Task_model_validate_def validate_required_def
       validate_optional_def validate_int_def validate_str_def example_ready_def
       wire_event_def poll_request_def numeral_2_eq_2)

theorem wait_until_completed_polls_witness:
  "wait_until_completed (example_session 2) (Task_model_validate no_coercion) example_running [] =
     Some (Inr example_ready,
           [poll_request (Json (JInt 42)), Sleep 10, poll_request (Json (JInt 42)), Sleep 10,
            poll_request (Json (JInt 42))])
   \<and> is_ready example_ready
   \<and> calls [poll_request (Json (JInt 42)), Sleep 10, poll_request (Json (JInt 42)), Sleep 10,
            poll_request (Json (JInt 42))] = 3
   \<and> sleeps [poll_request (Json (JInt 42)), Sleep 10, poll_request (Json (JInt 42)), Sleep 10,
            poll_request (Json (JInt 42))] = [10, 10]"
proof -
  have tid: "Json (JInt 42) = task_id_arg (task_id (task example_running))"
    by (simp add: example_running_def task_id_arg_def)
  have processing: "\<forall>k<2. \<exists>p. poll_result (example_session 2) (Task_model_validate no_coercion)
                      (Json (JInt 42)) [] k = Inr p \<and> is_processing p"
    by (auto simp add: less_Suc_eq numeral_2_eq_2 example_poll_result [unfolded numeral_2_eq_2 One_nat_def] is_processing_def)
  have ready: "is_ready example_ready"
    by (simp add: example_ready_def is_ready_def)
  show ?thesis
    using wait_until_completed_polls [OF tid processing example_poll_result(3) ready] ready
    by (simp add: numeral_2_eq_2)
qed

lemma example_wait:
  "wait_until_completed (example_session 2) (Task_model_validate no_coercion) example_running [] =
     Some (Inr example_ready,
           [poll_request (Json (JInt 42)), Sleep 10, poll_request (Json (JInt 42)), Sleep 10,
            poll_request (Json (JInt 42))])"
proof -
  have tid: "task_id_arg (task_id (task example_running)) = Json (JInt 42)"
    by (simp add: example_running_def task_id_arg_def)
  have before: "\<not> terminal (poll_result (example_session 2) (Task_model_validate no_coercion)
                    (task_id_arg (task_id (task example_running))) [] k)" if "k < 2" for k
    using that
    by (auto simp add: tid less_Suc_eq numeral_2_eq_2 terminal_def is_ready_def
          example_poll_result [unfolded numeral_2_eq_2 One_nat_def])
  have now: "terminal (poll_result (example_session 2) (Task_model_validate no_coercion)
                    (task_id_arg (task_id (task example_running))) [] 2)"
    by (simp add: tid example_poll_result terminal_def is_ready_def example_ready_def)
  show ?thesis
    using wait_until_completed_first_terminal [of 2 "example_session 2"
        "Task_model_validate no_coercion" example_running "[]", OF before now]
    by (simp add: tid example_poll_result example_poll_result [unfolded numeral_2_eq_2 One_nat_def]
          poll_history_def numeral_2_eq_2)
qed

theorem wait_until_completed_terminal_value_witness:
  "terminal (poll_result (example_session 2) (Task_model_validate no_coercion) (Json (JInt 42)) [] 2)
   \<and> wait_until_completed (example_session 2) (Task_model_validate no_coercion) example_running [] =
       Some (Inr example_ready,
             [poll_request (Json (JInt 42)), Sleep 10, poll_request (Json (JInt 42)), Sleep 10,
              poll_request (Json (JInt 42))])
   \<and> terminal (Inr example_ready)
   \<and> is_ready example_ready
   \<and> \<not> is_processing example_ready"
proof -
  have tid: "Json (JInt 42) = task_id_arg (task_id (task example_running))"
    by (simp add: example_running_def task_id_arg_def)
  have now: "terminal (poll_result (example_session 2) (Task_model_validate no_coercion)
                    (Json (JInt 42)) [] 2)"
    by (simp add: example_poll_result terminal_def is_ready_def example_ready_def)
  show ?thesis
    using wait_until_completed_terminal_value [OF tid, of "example_session 2"
        "Task_model_validate no_coercion" "[]" 2] example_wait now
    by simp
qed

subsection \<open>Creating a task and fetching its result\<close>

lemma create_task_trace:
  "snd (snd (create_task session mv ty payload tr)) =
     tr @ [Post ''/createTask'' (Some (Dict [(''task'', Dict (AList.update ''type'' (Enum ty) payload))]))]"
  by (simp add: create_task_def session_post_def Let_def split: sum.split)

lemma create_task_payload:
  "fst (snd (create_task session mv ty payload tr)) = AList.update ''type'' (Enum ty) payload"
  by (simp add: create_task_def session_post_def Let_def split: sum.split)

lemma create_task_result:
  "fst (create_task session mv ty payload tr) =
     (case session (tr @ [Post ''/createTask''
              (Some (Dict [(''task'', Dict (AList.update ''type'' (Enum ty) payload))]))]) of
        Inl e \<Rightarrow> Inl e
      | Inr data \<Rightarrow> RunningTask_init mv data)"
  by (simp add: create_task_def session_post_def Let_def split: sum.split)

lemma calls_single: "calls [Post path body] = 1"
  by (simp add: calls_def)

text \<open>
  C3. When the transport raises on the request that \<open>create_task\<close> posts, \<open>create_task\<close>
  raises that same failure, returns no RunningTask, and has posted exactly one request.
  The example is a server whose response carries \<open>errorId = 12\<close>: the failure carries 12.
\<close>

theorem create_task_propagates_failure:
  assumes "session (tr @ [Post ''/createTask''
              (Some (Dict [(''task'', Dict (AList.update ''type'' (Enum ty) payload))]))]) = Inl e"
  shows "fst (create_task session mv ty payload tr) = Inl e
       \<and> (\<forall>running. fst (create_task session mv ty payload tr) \<noteq> Inr running)
       \<and> snd (snd (create_task session mv ty payload tr)) =
           tr @ [Post ''/createTask''
                   (Some (Dict [(''task'', Dict (AList.update ''type'' (Enum ty) payload))]))]
       \<and> calls (drop (length tr) (snd (snd (create_task session mv ty payload tr)))) = 1"
  using assms by (simp add: create_task_result create_task_trace calls_single)

lemma example_error12:
  "Async2Captcha_session ''KEY'' server_error12 tr =
     Inl (TwoCaptchaError 12 (Some (JStr ''ERROR_CAPTCHA_UNSOLVABLE''))
            (Some (JStr ''Workers could not solve the captcha'')))"
  by (simp add: Async2Captcha_session_def HTTPSession_post_def server_error12_def)

theorem create_task_propagates_failure_witness:
  "Async2Captcha_session ''KEY'' server_error12
       ([] @ [Post ''/createTask''
              (Some (Dict [(''task'', Dict (AList.update ''type'' (Enum COORDINATES) example_payload))]))]) =
     Inl (TwoCaptchaError 12 (Some (JStr ''ERROR_CAPTCHA_UNSOLVABLE''))
            (Some (JStr ''Workers could not solve the captcha'')))
   \<and> fst (create_task (Async2Captcha_session ''KEY'' server_error12)
             (Task_model_validate no_coercion) COORDINATES example_payload []) =
       Inl (TwoCaptchaError 12 (Some (JStr ''ERROR_CAPTCHA_UNSOLVABLE''))
            (Some (JStr ''Workers could not solve the captcha'')))
   \<and> calls (snd (snd (create_task (Async2Captcha_session ''KEY'' server_error12)
             (Task_model_validate no_coercion) COORDINATES example_payload []))) = 1"
  using create_task_propagates_failure [where session = "Async2Captcha_session ''KEY'' server_error12"
      and tr = "[]" and ty = COORDINATES and payload = example_payload
      and mv = "Task_model_validate no_coercion", OF example_error12] example_error12
  by (simp add: calls_single)

lemma get_task_result_result:
  "fst (get_task_result session mv tid tr) =
     (case session (tr @ [Post ''/getTaskResult'' (Some (Dict [(''taskId'', tid)]))]) of
        Inl e \<Rightarrow> Inl e
      | Inr data \<Rightarrow> mv data)"
  by (simp add: get_task_result_def session_post_def Let_def split: sum.split)

text \<open>
  C6. \<open>create_task\<close> puts the type into the payload under the key "type" and posts one
  request, to \<open>/createTask\<close>, with the body \<open>{task: payload}\<close>; when the transport
  returns a response that parses into a Task, the result is the RunningTask that holds that
  Task, hence the task id that the response carries. \<open>get_task_result\<close> posts one
  request, to \<open>/getTaskResult\<close>, with the body \<open>{taskId: task_id}\<close>, and returns the
  response parsed into a Task.
\<close>

theorem create_task_and_get_task_result:
  "snd (snd (create_task session mv ty payload tr)) =
     tr @ [Post ''/createTask''
             (Some (Dict [(''task'', Dict (AList.update ''type'' (Enum ty) payload))]))]
   \<and> map_of (AList.update ''type'' (Enum ty) payload) ''type'' = Some (Enum ty)
   \<and> calls (drop (length tr) (snd (snd (create_task session mv ty payload tr)))) = 1
   \<and> (\<forall>data t.
         session (tr @ [Post ''/createTask''
             (Some (Dict [(''task'', Dict (AList.update ''type'' (Enum ty) payload))]))]) = Inr data
         \<and> mv data = Inr t
         \<longrightarrow> fst (create_task session mv ty payload tr) = Inr \<lparr>task = t\<rparr>)
   \<and> snd (get_task_result session mv tid tr) =
       tr @ [Post ''/getTaskResult'' (Some (Dict [(''taskId'', tid)]))]
   \<and> calls (drop (length tr) (snd (get_task_result session mv tid tr))) = 1
   \<and> (\<forall>data.
         session (tr @ [Post ''/getTaskResult'' (Some (Dict [(''taskId'', tid)]))]) = Inr data
         \<longrightarrow> fst (get_task_result session mv tid tr) = mv data)"
  by (simp add: create_task_trace create_task_result calls_single RunningTask_init_def
        update_conv' get_task_result_result get_task_result_trace [unfolded poll_request_def])

lemma example_create_response:
  "example_session 2 ([] @ [Post ''/createTask''
       (Some (Dict [(''task'', Dict (AList.update ''type'' (Enum COORDINATES) example_payload))]))]) =
     Inr (JDict [(''errorId'', JInt 0), (''taskId'', JInt 42), (''status'', JStr ''processing'')])"
  by (simp add: example_session_def Async2Captcha_session_def HTTPSession_post_def
        server_processing_then_ready_def wire_event_def)

lemma example_create_parse:
  "Task_model_validate no_coercion
     (JDict [(''errorId'', JInt 0), (''taskId'', JInt 42), (''status'', JStr ''processing'')]) =
   Inr (task example_running)"
  by (simp add: Task_model_validate_def validate_required_def validate_optional_def
        validate_int_def validate_str_def example_running_def)

lemma example_poll_response:
  "example_session 2 ([] @ [Post ''/getTaskResult'' (Some (Dict [(''taskId'', Json (JInt 42))]))]) =
     Inr (JDict [(''errorId'', JInt 0), (''status'', JStr ''processing'')])"
  by (simp add: example_session_def Async2Captcha_session_def HTTPSession_post_def
        server_processing_then_ready_def wire_event_def)

theorem create_task_and_get_task_result_witness:
  "example_session 2 ([] @ [Post ''/createTask''
       (Some (Dict [(''task'', Dict (AList.update ''type'' (Enum COORDINATES) example_payload))]))]) =
     Inr (JDict [(''errorId'', JInt 0), (''taskId'', JInt 42), (''status'', JStr ''processing'')])
   \<and> Task_model_validate no_coercion
       (JDict [(''errorId'', JInt 0), (''taskId'', JInt 42), (''status'', JStr ''processing'')]) =
     Inr (task example_running)
   \<and> fst (create_task (example_session 2) (Task_model_validate no_coercion) COORDINATES
            example_payload []) = Inr example_running
   \<and> task_id (task example_running) = Some 42
   \<and> example_session 2 ([] @ [Post ''/getTaskResult'' (Some (Dict [(''taskId'', Json (JInt 42))]))]) =
       Inr (JDict [(''errorId'', JInt 0), (''status'', JStr ''processing'')])
   \<and> fst (get_task_result (example_session 2) (Task_model_validate no_coercion) (Json (JInt 42)) []) =
       Task_model_validate no_coercion (JDict [(''errorId'', JInt 0), (''status'', JStr ''processing'')])"
  using create_task_and_get_task_result [of "example_session 2" "Task_model_validate no_coercion"
      COORDINATES example_payload "[]" "Json (JInt 42)"]
    example_create_response example_create_parse example_poll_response
  by (simp add: example_running_def)

subsection \<open>The payload of the coordinates solver\<close>

text \<open>
  C5. With only \<open>body\<close> supplied, the payload that \<open>CoordinatesSolver.create_task\<close>
  assembles has exactly one key, "body"; with \<open>min_clicks = 1\<close> and \<open>max_clicks = 3\<close>
  supplied as well it has exactly the keys "body", "minClicks" and "maxClicks", with those
  values. An optional parameter that is absent leaves no key in the payload, no value of
  the payload is null, and the payload has no key beyond the five of the solver. (The
  client adds the key "type" afterwards, when it creates the task.)
\<close>

theorem coordinates_payload_keys:
  "coordinates_payload body None None None None = [(''body'', Json (JStr body))]
   \<and> map fst (coordinates_payload body None None None None) = [''body'']
   \<and> coordinates_payload body None None (Some 1) (Some 3) =
       [(''body'', Json (JStr body)), (''minClicks'', Json (JInt 1)), (''maxClicks'', Json (JInt 3))]
   \<and> map fst (coordinates_payload body None None (Some 1) (Some 3)) =
       [''body'', ''minClicks'', ''maxClicks'']
   \<and> (comment = None \<longrightarrow>
        ''comment'' \<notin> fst ` set (coordinates_payload body comment img_instructions min_clicks max_clicks))
   \<and> (img_instructions = None \<longrightarrow>
        ''imgInstructions'' \<notin> fst ` set (coordinates_payload body comment img_instructions min_clicks max_clicks))
   \<and> (min_clicks = None \<longrightarrow>
        ''minClicks'' \<notin> fst ` set (coordinates_payload body comment img_instructions min_clicks max_clicks))
   \<and> (max_clicks = None \<longrightarrow>
        ''maxClicks'' \<notin> fst ` set (coordinates_payload body comment img_instructions min_clicks max_clicks))
   \<and> Json JNull \<notin> snd ` set (coordinates_payload body comment img_instructions min_clicks max_clicks)
   \<and> fst ` set (coordinates_payload body comment img_instructions min_clicks max_clicks)
       \<subseteq> {''body'', ''comment'', ''imgInstructions'', ''minClicks'', ''maxClicks''}"
  by (auto simp add: coordinates_payload_def Let_def split: option.splits if_splits)

theorem coordinates_payload_keys_witness:
  "(None :: string option) = None
   \<and> ''comment'' \<notin> fst ` set (coordinates_payload ''aGVsbG8='' None None (Some 1) (Some 3))
   \<and> ''imgInstructions'' \<notin> fst ` set (coordinates_payload ''aGVsbG8='' None None (Some 1) (Some 3))
   \<and> (None :: int option) = None
   \<and> ''minClicks'' \<notin> fst ` set (coordinates_payload ''aGVsbG8='' None None None None)
   \<and> ''maxClicks'' \<notin> fst ` set (coordinates_payload ''aGVsbG8='' None None None None)
   \<and> coordinates_payload ''aGVsbG8='' None None (Some 1) (Some 3) =
       [(''body'', Json (JStr ''aGVsbG8='')), (''minClicks'', Json (JInt 1)),
        (''maxClicks'', Json (JInt 3))]"
  using coordinates_payload_keys [of "''aGVsbG8=''" None None "Some 1" "Some 3"]
    coordinates_payload_keys [of "''aGVsbG8=''" None None None None]
  by simp

text \<open>
  C10. "comment" and "imgInstructions" are in the payload exactly when the value
  supplied is a non-empty string, so an empty string gives the payload of an absent
  parameter; "minClicks" and "maxClicks" are in the payload exactly when the value
  supplied is not \<open>None\<close>, so a 0 is included.
\<close>

theorem coordinates_payload_inclusion:
  "(''comment'' \<in> fst ` set (coordinates_payload body comment img_instructions min_clicks max_clicks)
      \<longleftrightarrow> (\<exists>c. comment = Some c \<and> c \<noteq> []))
   \<and> (''imgInstructions'' \<in> fst ` set (coordinates_payload body comment img_instructions min_clicks max_clicks)
      \<longleftrightarrow> (\<exists>i. img_instructions = Some i \<and> i \<noteq> []))
   \<and> (''minClicks'' \<in> fst ` set (coordinates_payload body comment img_instructions min_clicks max_clicks)
      \<longleftrightarrow> min_clicks \<noteq> None)
   \<and> (''maxClicks'' \<in> fst ` set (coordinates_payload body comment img_instructions min_clicks max_clicks)
      \<longleftrightarrow> max_clicks \<noteq> None)
   \<and> map_of (coordinates_payload body comment img_instructions min_clicks max_clicks) ''comment'' =
       (case comment of None \<Rightarrow> None | Some c \<Rightarrow> if c = [] then None else Some (Json (JStr c)))
   \<and> map_of (coordinates_payload body comment img_instructions min_clicks max_clicks) ''imgInstructions'' =
       (case img_instructions of None \<Rightarrow> None
        | Some i \<Rightarrow> if i = [] then None else Some (Json (JStr i)))
   \<and> map_of (coordinates_payload body comment img_instructions min_clicks max_clicks) ''minClicks'' =
       map_option (\<lambda>n. Json (JInt n)) min_clicks
   \<and> map_of (coordinates_payload body comment img_instructions min_clicks max_clicks) ''maxClicks'' =
       map_option (\<lambda>n. Json (JInt n)) max_clicks
   \<and> coordinates_payload body (Some []) img_instructions min_clicks max_clicks =
       coordinates_payload body None img_instructions min_clicks max_clicks
   \<and> coordinates_payload body comment (Some []) min_clicks max_clicks =
       coordinates_payload body comment None min_clicks max_clicks
   \<and> map_of (coordinates_payload body comment img_instructions (Some 0) max_clicks) ''minClicks'' =
       Some (Json (JInt 0))
   \<and> map_of (coordinates_payload body comment img_instructions min_clicks (Some 0)) ''maxClicks'' =
       Some (Json (JInt 0))"
  by (auto simp add: coordinates_payload_def Let_def update_conv' image_iff
        split: option.splits if_splits)

subsection \<open>The caller's payload\<close>

lemma map_of_update_type:
  "map_of (AList.update ''type'' v payload) k = (if k = ''type'' then Some v else map_of payload k)"
  by (simp add: update_conv')

lemma filter_update_other:
  "filter (\<lambda>kv. fst kv \<noteq> k) (AList.update k v payload) = filter (\<lambda>kv. fst kv \<noteq> k) payload"
  by (induction payload) auto

text \<open>
  C9. After \<open>create_task\<close>, whether it returned or raised, the caller's payload has the
  key "type" bound to the task type given, and every other entry is as it was, in the
  same order.
\<close>

theorem create_task_mutates_payload:
  "map_of (fst (snd (create_task session mv ty payload tr))) ''type'' = Some (Enum ty)
   \<and> (\<forall>k. k \<noteq> ''type'' \<longrightarrow>
         map_of (fst (snd (create_task session mv ty payload tr))) k = map_of payload k)
   \<and> filter (\<lambda>kv. fst kv \<noteq> ''type'') (fst (snd (create_task session mv ty payload tr))) =
       filter (\<lambda>kv. fst kv \<noteq> ''type'') payload"
  by (simp add: create_task_payload map_of_update_type filter_update_other)

theorem create_task_mutates_payload_witness:
  "''body'' \<noteq> ''type''
   \<and> (\<exists>e. fst (create_task (Async2Captcha_session ''KEY'' server_error12)
               (Task_model_validate no_coercion) COORDINATES example_payload []) = Inl e)
   \<and> map_of (fst (snd (create_task (Async2Captcha_session ''KEY'' server_error12)
               (Task_model_validate no_coercion) COORDINATES example_payload []))) ''type'' =
       Some (Enum COORDINATES)
   \<and> map_of (fst (snd (create_task (Async2Captcha_session ''KEY'' server_error12)
               (Task_model_validate no_coercion) COORDINATES example_payload []))) ''body'' =
       map_of example_payload ''body''
   \<and> (\<exists>running. fst (create_task (example_session 2)
               (Task_model_validate no_coercion) COORDINATES example_payload []) = Inr running)
   \<and> map_of (fst (snd (create_task (example_session 2)
               (Task_model_validate no_coercion) COORDINATES example_payload []))) ''type'' =
       Some (Enum COORDINATES)
   \<and> map_of (fst (snd (create_task (example_session 2)
               (Task_model_validate no_coercion) COORDINATES example_payload []))) ''body'' =
       map_of example_payload ''body''"
proof -
  have raises: "fst (create_task (Async2Captcha_session ''KEY'' server_error12)
               (Task_model_validate no_coercion) COORDINATES example_payload []) =
         Inl (TwoCaptchaError 12 (Some (JStr ''ERROR_CAPTCHA_UNSOLVABLE''))
            (Some (JStr ''Workers could not solve the captcha'')))"
    by (simp add: create_task_result example_error12)
  have returns: "fst (create_task (example_session 2)
               (Task_model_validate no_coercion) COORDINATES example_payload []) = Inr example_running"
    using example_create_response example_create_parse
    by (simp add: create_task_result RunningTask_init_def example_running_def)
  show ?thesis
    using create_task_mutates_payload [of "Async2Captcha_session ''KEY'' server_error12"
        "Task_model_validate no_coercion" COORDINATES example_payload "[]"]
      create_task_mutates_payload [of "example_session 2"
        "Task_model_validate no_coercion" COORDINATES example_payload "[]"]
      raises returns
    by simp
qed

subsection \<open>Balance\<close>









subsection \<open>Re-projection into the typed result\<close>

lemma validate_point_json: "validate_point lax (point_json pt) = Inr pt"
proof -
  have "traverse (\<lambda>(k, x). case validate_int lax x of Inl e \<Rightarrow> Inl e | Inr n \<Rightarrow> Inr (k, n))
          (map (\<lambda>(k, n). (k, JInt n)) pt) = Inr pt"
    by (induction pt) (auto simp add: validate_int_def)
  then show ?thesis
    by (simp add: validate_point_def point_json_def)
qed

lemma traverse_points: "traverse (validate_point lax) (map point_json pts) = Inr pts"
  by (induction pts) (simp_all add: validate_point_json)

lemma CoordinatesSolution_validate_shape:
  assumes "map_of kvs ''coordinates'' = Some (JList (map point_json pts))"
  shows "CoordinatesSolution_validate lax (JDict kvs) = Inr \<lparr>coordinates = pts\<rparr>"
  using assms by (simp add: CoordinatesSolution_validate_def validate_required_def traverse_points)

lemma CoordinatesSolution_validate_missing:
  assumes "map_of kvs ''coordinates'' = None"
  shows "CoordinatesSolution_validate lax (JDict kvs) = Inl ValidationError"
  using assms by (simp add: CoordinatesSolution_validate_def validate_required_def)

lemma validate_optional_str: "validate_optional validate_str (Some (opt_json JStr v)) = Inr v"
  by (cases v) (simp_all add: validate_optional_def validate_str_def opt_json_def)

lemma validate_optional_int: "validate_optional (validate_int lax) (Some (opt_json JInt v)) = Inr v"
  by (cases v) (simp_all add: validate_optional_def validate_int_def opt_json_def)

lemma map_of_model_dump:
  "map_of (model_dump t @ extra) ''error_id'' = Some (JInt (error_id t))"
  "map_of (model_dump t @ extra) ''error_code'' = Some (opt_json JStr (error_code t))"
  "map_of (model_dump t @ extra) ''error_description'' = Some (opt_json JStr (error_description t))"
  "map_of (model_dump t @ extra) ''task_id'' = Some (opt_json JInt (task_id t))"
  "map_of (model_dump t @ extra) ''status'' = Some (opt_json JStr (status t))"
  "map_of (model_dump t @ extra) ''solution'' = Some (opt_json id (solution t))"
  by (simp_all add: model_dump_def map_add_def)

lemma CoordinatesTask_init_dump:
  "CoordinatesTask_init lax (model_dump t @ extra) =
     (case validate_optional (CoordinatesSolution_validate lax) (Some (opt_json id (solution t))) of
        Inl e \<Rightarrow> Inl e
      | Inr sol \<Rightarrow>
          Inr \<lparr>task_id = task_id t, error_id = error_id t, error_code = error_code t,
               error_description = error_description t, status = status t, solution = sol\<rparr>)"
  by (simp add: CoordinatesTask_init_def map_of_model_dump validate_optional_str
        validate_optional_int validate_required_def validate_int_def del: map_of_append)

text \<open>
  C8, as amended. For a Task whose solution is absent, or is a mapping whose entry
  "coordinates" is a list of mappings from strings to integers, the re-projection
  succeeds: the result has the task id, the error fields and the status of the Task
  unchanged and the solution as a \<open>CoordinatesSolution\<close>; keyword fields beyond those of
  the model and keys of the solution beyond "coordinates" are ignored. For a Task whose
  solution is a mapping without the entry "coordinates", the re-projection raises a
  validation error.
\<close>

theorem reprojection_on_coordinates:
  "(solution t = None \<longrightarrow>
      CoordinatesTask_init lax (model_dump t @ extra) =
        Inr \<lparr>task_id = task_id t, error_id = error_id t, error_code = error_code t,
             error_description = error_description t, status = status t, solution = None\<rparr>)
   \<and> (solution t = Some (JDict kvs)
        \<and> map_of kvs ''coordinates'' = Some (JList (map point_json pts)) \<longrightarrow>
      CoordinatesTask_init lax (model_dump t @ extra) =
        Inr \<lparr>task_id = task_id t, error_id = error_id t, error_code = error_code t,
             error_description = error_description t, status = status t,
             solution = Some \<lparr>coordinates = pts\<rparr>\<rparr>)
   \<and> (solution t = Some (JDict kvs) \<and> map_of kvs ''coordinates'' = None \<longrightarrow>
      CoordinatesTask_init lax (model_dump t @ extra) = Inl ValidationError)"
  by (simp add: CoordinatesTask_init_dump opt_json_def validate_optional_def
        CoordinatesSolution_validate_shape CoordinatesSolution_validate_missing)

text \<open>
  C8 as stated fails: a ready Task whose solution is \<open>{token: "abc"}\<close> is a valid
  terminal generic Task, and the re-projection raises on it, since the typed model
  requires the field \<open>coordinates\<close>.
\<close>

theorem reprojection_counterexample:
  "is_ready example_token_task
   \<and> CoordinatesTask_init no_coercion (model_dump example_token_task) = Inl ValidationError"
  using CoordinatesTask_init_dump [of no_coercion example_token_task "[]"]
  by (simp add: example_token_task_def is_ready_def opt_json_def validate_optional_def
        CoordinatesSolution_validate_missing)

theorem reprojection_on_coordinates_witness:
  "solution example_unsolved = None
   \<and> CoordinatesTask_init no_coercion (model_dump example_unsolved @ [(''cost'', JStr ''0.00145'')]) =
       Inr \<lparr>task_id = Some 42, error_id = 0, error_code = None, error_description = None,
            status = Some ''ready'', solution = None\<rparr>
   \<and> solution example_ready =
       Some (JDict [(''coordinates'', JList (map point_json [[(''x'', 10), (''y'', 20)]]))])
   \<and> CoordinatesTask_init no_coercion (model_dump example_ready @ [(''cost'', JStr ''0.00145'')]) =
       Inr \<lparr>task_id = None, error_id = 0, error_code = None, error_description = None,
            status = Some ''ready'',
            solution = Some \<lparr>coordinates = [[(''x'', 10), (''y'', 20)]]\<rparr>\<rparr>
   \<and> solution example_token_task = Some (JDict [(''token'', JStr ''abc'')])
   \<and> map_of [(''token'', JStr ''abc'')] ''coordinates'' = None
   \<and> CoordinatesTask_init no_coercion (model_dump example_token_task @ []) = Inl ValidationError"
  using reprojection_on_coordinates [where t = example_unsolved and lax = no_coercion
        and extra = "[(''cost'', JStr ''0.00145'')]"]
    reprojection_on_coordinates [where t = example_ready and lax = no_coercion
        and kvs = "[(''coordinates'', JList (map point_json [[(''x'', 10), (''y'', 20)]]))]"
        and pts = "[[(''x'', 10), (''y'', 20)]]" and extra = "[(''cost'', JStr ''0.00145'')]"]
    reprojection_on_coordinates [where t = example_token_task and lax = no_coercion
        and kvs = "[(''token'', JStr ''abc'')]" and extra = "[]"]
  by (simp add: example_unsolved_def example_ready_def example_token_task_def point_json_def)

subsection \<open>An end-to-end run\<close>

lemma example_create_task:
  "create_task (example_session 2) (Task_model_validate no_coercion) COORDINATES example_payload [] =
     (Inr example_running,
      [(''body'', Json (JStr ''aGVsbG8='')), (''minClicks'', Json (JInt 1)), (''type'', Enum COORDINATES)],
      [Post ''/createTask'' (Some (Dict [(''task'', Dict
          [(''body'', Json (JStr ''aGVsbG8='')), (''minClicks'', Json (JInt 1)),
           (''type'', Enum COORDINATES)])]))])"
proof -
  have "fst (create_task (example_session 2)
               (Task_model_validate no_coercion) COORDINATES example_payload []) = Inr example_running"
    using example_create_response example_create_parse
    by (simp add: create_task_result RunningTask_init_def example_running_def)
  moreover have "AList.update ''type'' (Enum COORDINATES) example_payload =
      [(''body'', Json (JStr ''aGVsbG8='')), (''minClicks'', Json (JInt 1)), (''type'', Enum COORDINATES)]"
    by (simp add: example_payload_def coordinates_payload_def)
  ultimately show ?thesis
    using create_task_trace [of "example_session 2" "Task_model_validate no_coercion" COORDINATES
        example_payload "[]"]
      create_task_payload [of "example_session 2" "Task_model_validate no_coercion" COORDINATES
        example_payload "[]"]
    by (simp add: prod_eq_iff)
qed

lemma example_poll_result_after_create:
  "poll_result (example_session 2) (Task_model_validate no_coercion) (Json (JInt 42))
       [Post ''/createTask'' body] 0 =
     Inr \<lparr>task_id = None, error_id = 0, error_code = None, error_description = None,
               status = Some ''processing'', solution = None\<rparr>"
  "poll_result (example_session 2) (Task_model_validate no_coercion) (Json (JInt 42))
       [Post ''/createTask'' body] (Suc 0) =
     Inr \<lparr>task_id = None, error_id = 0, error_code = None, error_description = None,
               status = Some ''processing'', solution = None\<rparr>"
  "poll_result (example_session 2) (Task_model_validate no_coercion) (Json (JInt 42))
       [Post ''/createTask'' body] (Suc (Suc 0)) =
     Inr example_ready"
  by (simp_all add: poll_result_def poll_history_def get_task_result_def session_post_def
       example_session_def Async2Captcha_session_def HTTPSession_post_def
       server_processing_then_ready_def Task_model_validate_def validate_required_def
       validate_optional_def validate_int_def validate_str_def example_ready_def
       wire_event_def poll_request_def)

lemma example_wait_after_create:
  "wait_until_completed (example_session 2) (Task_model_validate no_coercion) example_running
       [Post ''/createTask'' body] =
     Some (Inr example_ready,
           [Post ''/createTask'' body,
            poll_request (Json (JInt 42)), Sleep 10, poll_request (Json (JInt 42)), Sleep 10,
            poll_request (Json (JInt 42))])"
proof -
  have tid: "task_id_arg (task_id (task example_running)) = Json (JInt 42)"
    by (simp add: example_running_def task_id_arg_def)
  have before: "\<not> terminal (poll_result (example_session 2) (Task_model_validate no_coercion)
                    (task_id_arg (task_id (task example_running))) [Post ''/createTask'' body] k)"
    if "k < Suc (Suc 0)" for k
    using that
    by (auto simp add: tid less_Suc_eq terminal_def is_ready_def example_poll_result_after_create)
  have now: "terminal (poll_result (example_session 2) (Task_model_validate no_coercion)
                    (task_id_arg (task_id (task example_running))) [Post ''/createTask'' body] (Suc (Suc 0)))"
    by (simp add: tid example_poll_result_after_create terminal_def is_ready_def example_ready_def)
  show ?thesis
    using wait_until_completed_first_terminal [of "Suc (Suc 0)" "example_session 2"
        "Task_model_validate no_coercion" example_running "[Post ''/createTask'' body]", OF before now]
    by (simp add: tid example_poll_result_after_create poll_history_def)
qed

text \<open>
  The whole of \<open>CoordinatesSolver.create_task\<close> on the example server: one request to
  create the task, three polls with a sleep of 10 between them, and the last poll's Task
  as a \<open>CoordinatesTask\<close>. The result is built from the response to the last poll, so
  its task id is the one that response carried (none, here).
\<close>

lemma CoordinatesSolver_create_task_example:
  "CoordinatesSolver_create_task (example_session 2) (Task_model_validate no_coercion) no_coercion
       ''aGVsbG8='' None None (Some 1) None [] =
     Some (Inr \<lparr>task_id = None, error_id = 0, error_code = None, error_description = None,
                status = Some ''ready'',
                solution = Some \<lparr>coordinates = [[(''x'', 10), (''y'', 20)]]\<rparr>\<rparr>,
           [Post ''/createTask'' (Some (Dict [(''task'', Dict
                [(''body'', Json (JStr ''aGVsbG8='')), (''minClicks'', Json (JInt 1)),
                 (''type'', Enum COORDINATES)])])),
            poll_request (Json (JInt 42)), Sleep 10, poll_request (Json (JInt 42)), Sleep 10,
            poll_request (Json (JInt 42))])"
proof -
  have reproject: "CoordinatesTask_init no_coercion (model_dump example_ready) =
      Inr \<lparr>task_id = None, error_id = 0, error_code = None, error_description = None,
           status = Some ''ready'',
           solution = Some \<lparr>coordinates = [[(''x'', 10), (''y'', 20)]]\<rparr>\<rparr>"
    using CoordinatesTask_init_dump [of no_coercion example_ready "[]"]
      CoordinatesSolution_validate_shape [of "[(''coordinates'', JList (map point_json [[(''x'', 10), (''y'', 20)]]))]"
        "[[(''x'', 10), (''y'', 20)]]" no_coercion]
    by (simp add: example_ready_def opt_json_def validate_optional_def point_json_def)
  show ?thesis
    unfolding CoordinatesSolver_create_task_def
    using example_create_task [unfolded example_payload_def]
    by (simp add: example_wait_after_create reproject)
qed

end
